theory Spec2Isabelle
  imports Complex_Main "HOL-Library.Sublist"
begin

section \<open>Python strings\<close>

text \<open>
  A Python \<^verbatim>\<open>str\<close> is a sequence of Unicode code points and \<^verbatim>\<open>len\<close> counts code
  points, so a string is a list of natural numbers. \<open>lit\<close> embeds an ASCII literal.
\<close>

type_synonym pystr = "nat list"

definition lit :: "string \<Rightarrow> pystr" where
  "lit s = map of_char s"

text \<open>
  \<^verbatim>\<open>str.isspace\<close>, which is what \<^verbatim>\<open>str.strip()\<close> and the pattern \<^verbatim>\<open>\s\<close> of a
  \<^verbatim>\<open>str\<close> regular expression test: the 29 white-space code points of CPython.
\<close>

definition is_space :: "nat \<Rightarrow> bool" where
  "is_space c \<longleftrightarrow>
     (9 \<le> c \<and> c \<le> 13) \<or> (28 \<le> c \<and> c \<le> 32) \<or> c = 133 \<or> c = 160 \<or> c = 5760 \<or>
     (8192 \<le> c \<and> c \<le> 8202) \<or> c = 8232 \<or> c = 8233 \<or> c = 8239 \<or> c = 8287 \<or> c = 12288"

text \<open>
  The pattern \<^verbatim>\<open>\d\<close> of a \<^verbatim>\<open>str\<close> regular expression matches the code points of
  category Nd. The table is the one of Unicode 14.0 (CPython 3.11): 62 ranges, the
  first being the ASCII digits.
\<close>

definition decimal_ranges :: "(nat \<times> nat) list" where
  "decimal_ranges =
     [(48, 57), (1632, 1641), (1776, 1785), (1984, 1993), (2406, 2415), (2534, 2543),
      (2662, 2671), (2790, 2799), (2918, 2927), (3046, 3055), (3174, 3183), (3302, 3311),
      (3430, 3439), (3558, 3567), (3664, 3673), (3792, 3801), (3872, 3881), (4160, 4169),
      (4240, 4249), (6112, 6121), (6160, 6169), (6470, 6479), (6608, 6617), (6784, 6793),
      (6800, 6809), (6992, 7001), (7088, 7097), (7232, 7241), (7248, 7257), (42528, 42537),
      (43216, 43225), (43264, 43273), (43472, 43481), (43504, 43513), (43600, 43609),
      (44016, 44025), (65296, 65305), (66720, 66729), (68912, 68921), (69734, 69743),
      (69872, 69881), (69942, 69951), (70096, 70105), (70384, 70393), (70736, 70745),
      (70864, 70873), (71248, 71257), (71360, 71369), (71472, 71481), (71904, 71913),
      (72016, 72025), (72784, 72793), (73040, 73049), (73120, 73129), (92768, 92777),
      (92864, 92873), (93008, 93017), (120782, 120831), (123200, 123209), (123632, 123641),
      (125264, 125273), (130032, 130041)]"

definition is_decimal :: "nat \<Rightarrow> bool" where
  "is_decimal c = list_ex (\<lambda>(lo, hi). lo \<le> c \<and> c \<le> hi) decimal_ranges"

text \<open>\<^verbatim>\<open>s.strip()\<close> and \<^verbatim>\<open>s.rstrip('/')\<close>.\<close>

definition strip :: "pystr \<Rightarrow> pystr" where
  "strip s = rev (dropWhile is_space (rev (dropWhile is_space s)))"

definition rstrip_char :: "nat \<Rightarrow> pystr \<Rightarrow> pystr" where
  "rstrip_char ch s = rev (dropWhile (\<lambda>c. c = ch) (rev s))"

text \<open>
  \<^verbatim>\<open>s.upper()\<close> maps each code point through the full upper-case mapping of the
  Unicode database. The ASCII part is written out; the mapping of the other code points
  is the parameter \<open>uc\<close>.
\<close>

definition upper :: "(nat \<Rightarrow> pystr) \<Rightarrow> pystr \<Rightarrow> pystr" where
  "upper uc s =
     concat (map (\<lambda>c. if 97 \<le> c \<and> c \<le> 122 then [c - 32] else if c < 128 then [c] else uc c) s)"

text \<open>\<^verbatim>\<open>str(i)\<close> of an integer, as an f-string and \<^verbatim>\<open>%d\<close> render it.\<close>

fun digits10 :: "nat \<Rightarrow> pystr" where
  "digits10 n = (if n < 10 then [48 + n] else digits10 (n div 10) @ [48 + n mod 10])"

declare digits10.simps [simp del]

definition str_int :: "int \<Rightarrow> pystr" where
  "str_int i = (if i < 0 then 45 # digits10 (nat (- i)) else digits10 (nat i))"

section \<open>Exceptions and observable actions\<close>

text \<open>
  The exceptions the code raises or meets. All are subclasses of \<^verbatim>\<open>Exception\<close> except
  \<^verbatim>\<open>asyncio.CancelledError\<close>, which derives from \<^verbatim>\<open>BaseException\<close> only.
\<close>

datatype exn =
    RuntimeError
  | NetworkError
  | TimeoutException
  | HTTPStatusError nat
  | JSONDecodeError
  | AttributeError
  | TypeError
  | TelegramError
  | CancelledError

fun is_Exception :: "exn \<Rightarrow> bool" where
  "is_Exception CancelledError = False"
| "is_Exception _ = True"

text \<open>
  What a handler does to the outside world, in order: the HTTP request (URL and the two
  fields of the JSON payload), the log records, and the two calls of the Telegram API.
\<close>

datatype action =
    HttpPost pystr pystr pystr
  | LogInfo pystr
  | LogException exn
  | SendChatAction int pystr
  | ReplyText pystr

section \<open>Configuration\<close>

text \<open>
  The value of a module attribute of \<^verbatim>\<open>logging\<close>, and the attributes whose names
  \<^verbatim>\<open>upper()\<close> can produce (those without a lower-case letter), as in CPython 3.11.
\<close>

datatype attr = AInt int | AStr pystr | ADict

definition logging_attrs :: "(pystr \<times> attr) list" where
  "logging_attrs =
     [(lit ''CRITICAL'', AInt 50), (lit ''FATAL'', AInt 50), (lit ''ERROR'', AInt 40),
      (lit ''WARNING'', AInt 30), (lit ''WARN'', AInt 30), (lit ''INFO'', AInt 20),
      (lit ''DEBUG'', AInt 10), (lit ''NOTSET'', AInt 0),
      (lit ''BASIC_FORMAT'', AStr (lit ''%(levelname)s:%(name)s:%(message)s'')),
      (lit ''_STYLES'', ADict)]"

definition getenv :: "(pystr \<rightharpoonup> pystr) \<Rightarrow> pystr \<Rightarrow> pystr \<Rightarrow> pystr" where
  "getenv environ key dflt = (case environ key of Some v \<Rightarrow> v | None \<Rightarrow> dflt)"

definition load_config :: "(nat \<Rightarrow> pystr) \<Rightarrow> (pystr \<rightharpoonup> pystr) \<Rightarrow> exn + (pystr \<times> pystr \<times> attr)" where
  "load_config uc environ =
     (let token = getenv environ (lit ''TELEGRAM_BOT_TOKEN'') [];
          api_base = getenv environ (lit ''BCN_API_BASE_URL'') (lit ''http://localhost:8000'');
          log_level_name = upper uc (getenv environ (lit ''BCN_BOT_LOG_LEVEL'') (lit ''INFO''));
          log_level = (case map_of logging_attrs log_level_name of
                         Some a \<Rightarrow> a | None \<Rightarrow> AInt 20)
      in if token = [] then Inl RuntimeError else Inr (token, api_base, log_level))"

section \<open>Backend client\<close>

text \<open>
  The Python value \<^verbatim>\<open>resp.json()\<close> returns. An object is the list of the items of the
  \<^verbatim>\<open>dict\<close>. A float is given by its value (the infinities and nan, which are truthy,
  behave as any non-zero float in what follows).
\<close>

datatype json =
    JNull
  | JBool bool
  | JInt int
  | JFloat real
  | JStr pystr
  | JArr "json list"
  | JObj "(pystr \<times> json) list"

fun truthy :: "json \<Rightarrow> bool" where
  "truthy JNull = False"
| "truthy (JBool b) = b"
| "truthy (JInt i) = (i \<noteq> 0)"
| "truthy (JFloat x) = (x \<noteq> 0)"
| "truthy (JStr s) = (s \<noteq> [])"
| "truthy (JArr xs) = (xs \<noteq> [])"
| "truthy (JObj kvs) = (kvs \<noteq> [])"

text \<open>
  What the network does with the request: \<^verbatim>\<open>client.post\<close> raises, or a response comes
  back with a status code and a body that \<^verbatim>\<open>resp.json()\<close> parses (\<open>Some\<close>) or rejects
  (\<open>None\<close>).
\<close>

datatype http_result = PostRaises exn | PostResponse nat "json option"

definition no_response :: pystr where
  "no_response = lit ''No response from BCN Art Compass.''"

definition apology :: pystr where
  "apology = lit ''I couldn't reach the BCN Art Compass backend right now. '' @
             lit ''Please try again in a moment.''"

text \<open>
  The four statements inside \<^verbatim>\<open>try\<close>: the request, \<^verbatim>\<open>raise_for_status()\<close> (httpx raises
  unless the status is 2xx), \<^verbatim>\<open>resp.json()\<close>, and
  \<^verbatim>\<open>data.get("response") or "No response from BCN Art Compass."\<close>, where \<^verbatim>\<open>get\<close> exists
  on a \<^verbatim>\<open>dict\<close> only.
\<close>

definition try_body :: "http_result \<Rightarrow> exn + json" where
  "try_body net =
     (case net of
        PostRaises e \<Rightarrow> Inl e
      | PostResponse status body \<Rightarrow>
          if \<not> (200 \<le> status \<and> status \<le> 299) then Inl (HTTPStatusError status)
          else (case body of
                  None \<Rightarrow> Inl JSONDecodeError
                | Some (JObj kvs) \<Rightarrow>
                    (case map_of kvs (lit ''response'') of
                       None \<Rightarrow> Inr (JStr no_response)
                     | Some v \<Rightarrow> if truthy v then Inr v else Inr (JStr no_response))
                | Some _ \<Rightarrow> Inl AttributeError))"

text \<open>
  \<open>call_bcn_api\<close>, with the module constant \<^verbatim>\<open>BCN_API_BASE_URL\<close> as first argument:
  the actions performed and the value returned (\<open>Inr\<close>) or the exception that leaves the
  function (\<open>Inl\<close>). \<^verbatim>\<open>except Exception\<close> handles the subclasses of \<^verbatim>\<open>Exception\<close>.
\<close>

definition call_bcn_api :: "pystr \<Rightarrow> http_result \<Rightarrow> pystr \<Rightarrow> pystr \<Rightarrow> action list \<times> (exn + json)" where
  "call_bcn_api base_url net user_id message =
     (let url = rstrip_char 47 base_url @ lit ''/chat'' in
      case try_body net of
        Inr v \<Rightarrow> ([HttpPost url user_id message], Inr v)
      | Inl e \<Rightarrow>
          if is_Exception e
          then ([HttpPost url user_id message, LogException e], Inr (JStr apology))
          else ([HttpPost url user_id message], Inl e))"

section \<open>Telegram updates and the user identifier\<close>

record user =
  id_u :: int
  username :: "pystr option"

record chat =
  id_c :: int

record message =
  msg_text :: "pystr option"

record update =
  message :: "message option"
  effective_user :: "user option"
  effective_chat :: "chat option"

text \<open>
  \<open>_telegram_user_id\<close>. Each test is a Python \<^verbatim>\<open>a and a.b\<close>: the object must be there and
  the field truthy, which for a string is non-empty and for an integer non-zero.
\<close>

definition telegram_user_id :: "update \<Rightarrow> pystr" where
  "telegram_user_id u =
     (case Option.bind (effective_user u) (\<lambda>usr. Option.bind (username usr)
             (\<lambda>n. if n \<noteq> [] then Some n else None)) of
        Some n \<Rightarrow> lit ''tg_'' @ n
      | None \<Rightarrow>
     (case Option.bind (effective_user u) (\<lambda>usr. if id_u usr \<noteq> 0 then Some (id_u usr) else None) of
        Some i \<Rightarrow> lit ''tg_id_'' @ str_int i
      | None \<Rightarrow>
     (case Option.bind (effective_chat u) (\<lambda>ch. if id_c ch \<noteq> 0 then Some (id_c ch) else None) of
        Some i \<Rightarrow> lit ''tg_chat_'' @ str_int i
      | None \<Rightarrow> lit ''tg_unknown'')))"

section \<open>Response formatter\<close>

text \<open>
  \<^verbatim>\<open>re.sub(pattern, repl, text)\<close>: scan from left to right; where the pattern matches,
  emit the expanded template and go on after the match, otherwise copy one character.
  The matcher \<open>m\<close> gets the character before the position (\<open>None\<close> at the start of the
  string, for \<^verbatim>\<open>^\<close>) and the rest of the string, and returns group 1 and the length of
  the match; \<open>tpl\<close> expands the template for group 1. After an empty match the next
  character is copied, as \<^verbatim>\<open>re\<close> does.
\<close>

fun re_sub :: "(nat option \<Rightarrow> pystr \<Rightarrow> (pystr \<times> nat) option) \<Rightarrow> (pystr \<Rightarrow> pystr)
    \<Rightarrow> nat option \<Rightarrow> pystr \<Rightarrow> pystr" where
  "re_sub m tpl prev [] = (case m prev [] of Some (g, n) \<Rightarrow> tpl g | None \<Rightarrow> [])"
| "re_sub m tpl prev (c # cs) =
     (case m prev (c # cs) of
        None \<Rightarrow> c # re_sub m tpl (Some c) cs
      | Some (g, n) \<Rightarrow>
          if n = 0 then tpl g @ c # re_sub m tpl (Some c) cs
          else tpl g @ re_sub m tpl (Some (last (take n (c # cs)))) (drop n (c # cs)))"

text \<open>
  \<^verbatim>\<open>\*\*([^*]+)\*\*\<close>: two asterisks, the longest run of other characters (not empty),
  two asterisks. A shorter run cannot help, as it is followed by a character of the run.
\<close>

definition match_bold :: "nat option \<Rightarrow> pystr \<Rightarrow> (pystr \<times> nat) option" where
  "match_bold prev s =
     (if take 2 s = lit ''**'' then
        (let g = takeWhile (\<lambda>c. c \<noteq> 42) (drop 2 s) in
         if g \<noteq> [] \<and> take 2 (drop (2 + length g) s) = lit ''**''
         then Some (g, length g + 4) else None)
      else None)"

text \<open>\<^verbatim>\<open>(Why you[^:]*:)\<close>: the literal, the longest run without a colon, a colon.\<close>

definition match_why_you :: "nat option \<Rightarrow> pystr \<Rightarrow> (pystr \<times> nat) option" where
  "match_why_you prev s =
     (if take 7 s = lit ''Why you'' then
        (let g = takeWhile (\<lambda>c. c \<noteq> 58) (drop 7 s) in
         if take 1 (drop (7 + length g) s) = lit '':''
         then Some (take (length g + 8) s, length g + 8) else None)
      else None)"

text \<open>\<^verbatim>\<open>(When:)\<close> and the other literal labels.\<close>

definition match_literal :: "pystr \<Rightarrow> nat option \<Rightarrow> pystr \<Rightarrow> (pystr \<times> nat) option" where
  "match_literal pat prev s =
     (if take (length pat) s = pat then Some (pat, length pat) else None)"

text \<open>
  \<^verbatim>\<open>^(\d+)\.\s+\<close> with \<^verbatim>\<open>re.MULTILINE\<close>: at the start of the string or after a line feed,
  the longest run of digits (not empty), a full stop, the longest run of white space
  (not empty).
\<close>

definition match_numbered :: "nat option \<Rightarrow> pystr \<Rightarrow> (pystr \<times> nat) option" where
  "match_numbered prev s =
     (if prev = None \<or> prev = Some 10 then
        (let d = takeWhile is_decimal s; w = takeWhile is_space (drop (length d + 1) s) in
         if d \<noteq> [] \<and> take 1 (drop (length d) s) = lit ''.'' \<and> w \<noteq> []
         then Some (d, length d + 1 + length w) else None)
      else None)"

text \<open>\<^verbatim>\<open>\n{3,}\<close>: the longest run of line feeds, of length 3 at least.\<close>

definition match_blank_lines :: "nat option \<Rightarrow> pystr \<Rightarrow> (pystr \<times> nat) option" where
  "match_blank_lines prev s =
     (let r = takeWhile (\<lambda>c. c = 10) s in
      if 3 \<le> length r then Some ([], length r) else None)"

text \<open>
  \<open>_format_for_telegram\<close>. The markers are the code points of the replacement strings
  as the source file has them, each followed by a space.
\<close>

definition format_for_telegram :: "pystr \<Rightarrow> pystr" where
  "format_for_telegram text0 =
     (let text1 = re_sub match_bold (\<lambda>g. [240, 376, 381, 168, 32] @ g) None text0;
          text2 = re_sub match_why_you (\<lambda>g. [240, 376, 8217, 161, 32] @ g) None text1;
          text3 = re_sub (match_literal (lit ''When:'')) (\<lambda>g. [240, 376, 8220, 8230, 32] @ g) None text2;
          text4 = re_sub (match_literal (lit ''Where:'')) (\<lambda>g. [240, 376, 8220, 32] @ g) None text3;
          text5 = re_sub (match_literal (lit ''Location:'')) (\<lambda>g. [240, 376, 8220, 32] @ g) None text4;
          text6 = re_sub (match_literal (lit ''Price:'')) (\<lambda>g. [240, 376, 8217, 176, 32] @ g) None text5;
          text7 = re_sub (match_literal (lit ''More Info:'')) (\<lambda>g. [240, 376, 8221, 8212, 32] @ g) None text6;
          text8 = re_sub match_numbered (\<lambda>g. [10] @ g @ [239, 184, 226, 402, 163, 32]) None text7;
          text9 = re_sub match_blank_lines (\<lambda>g. [10, 10]) None text8
      in strip text9)"

section \<open>Message handler\<close>

text \<open>
  What the Telegram API does when the handler calls it: each of the two calls returns
  (\<open>None\<close>) or raises; and what the network does with the request of the backend client.
\<close>

record env =
  send_chat_action_result :: "exn option"
  post_result :: http_result
  reply_text_result :: "exn option"

text \<open>\<^verbatim>\<open>len(response_text)\<close>: defined on strings, lists and dicts.\<close>

fun py_len :: "json \<Rightarrow> exn + nat" where
  "py_len (JStr s) = Inr (length s)"
| "py_len (JArr xs) = Inr (length xs)"
| "py_len (JObj kvs) = Inr (length kvs)"
| "py_len _ = Inl TypeError"

text \<open>The length limit of \<open>handle_message\<close>.\<close>

definition limit_length :: "pystr \<Rightarrow> pystr" where
  "limit_length formatted_text =
     (if length formatted_text > 4000 then take 3996 formatted_text @ lit ''...''
      else formatted_text)"

text \<open>
  \<open>handle_message\<close>: the actions performed, in order, and the exception that leaves the
  handler, if any. \<^verbatim>\<open>update.effective_chat.id\<close> raises when there is no chat, and
  \<^verbatim>\<open>re.sub\<close> raises on a value that is not a string.
\<close>

definition handle_message :: "pystr \<Rightarrow> update \<Rightarrow> env \<Rightarrow> action list \<times> exn option" where
  "handle_message base_url u e =
     (case Option.bind (message u) msg_text of
        None \<Rightarrow> ([], None)
      | Some raw \<Rightarrow>
     if raw = [] then ([], None) else
     (let text = strip raw;
          user_id = telegram_user_id u in
      case effective_chat u of
        None \<Rightarrow> ([], Some AttributeError)
      | Some ch \<Rightarrow>
     (let a1 = [SendChatAction (id_c ch) (lit ''typing'')] in
      case send_chat_action_result e of
        Some x \<Rightarrow> (a1, Some x)
      | None \<Rightarrow>
     (let a2 = a1 @ [LogInfo (lit ''Calling BCN API for user '' @ user_id @
                              lit '' with message: '' @ take 50 text)];
          (acts, r) = call_bcn_api base_url (post_result e) user_id text;
          a3 = a2 @ acts in
      case r of
        Inl x \<Rightarrow> (a3, Some x)
      | Inr response_text \<Rightarrow>
     (case py_len response_text of
        Inl x \<Rightarrow> (a3, Some x)
      | Inr n \<Rightarrow>
     (let a4 = a3 @ [LogInfo (lit ''Received response of length '' @ str_int (int n))] in
      case response_text of
        JStr s \<Rightarrow>
          (let a5 = a4 @ [ReplyText (limit_length (format_for_telegram s))] in
           case reply_text_result e of
             Some x \<Rightarrow> (a5, Some x)
           | None \<Rightarrow> (a5 @ [LogInfo (lit ''Message sent successfully'')], None))
      | _ \<Rightarrow> (a4, Some TypeError)))))))"

section \<open>Auxiliary notions for the proofs\<close>

text \<open>The length of the run of line feeds at the start of a string.\<close>

definition lead :: "pystr \<Rightarrow> nat" where
  "lead s = length (takeWhile (\<lambda>c. c = 10) s)"

section \<open>Properties of the string functions\<close>

lemma strip_sublist: "sublist (strip s) s"
proof -
  let ?t = "dropWhile is_space s"
  have "rev ?t = takeWhile is_space (rev ?t) @ dropWhile is_space (rev ?t)"
    by simp
  then have "?t = rev (dropWhile is_space (rev ?t)) @ rev (takeWhile is_space (rev ?t))"
    by (metis rev_append rev_rev_ident)
  then have "prefix (strip s) ?t"
    unfolding strip_def by (metis prefixI)
  moreover have "suffix ?t s"
    by (rule suffix_dropWhile)
  ultimately show ?thesis
    by (meson prefix_imp_sublist suffix_imp_sublist sublist_order.order_trans)
qed

lemma strip_ends:
  "strip s = [] \<or> (\<not> is_space (hd (strip s)) \<and> \<not> is_space (last (strip s)))"
proof (cases "strip s = []")
  case True
  then show ?thesis by simp
next
  case False
  let ?t = "dropWhile is_space s"
  let ?d = "dropWhile is_space (rev ?t)"
  have d: "?d \<noteq> []" using False by (simp add: strip_def)
  have t: "?t \<noteq> []"
  proof
    assume a: "?t = []"
    have "?d = []" unfolding a by simp
    with d show False by blast
  qed
  have 1: "\<not> is_space (hd ?d)" using d by (rule hd_dropWhile)
  have 2: "\<not> is_space (hd ?t)" using t by (rule hd_dropWhile)
  have "suffix ?d (rev ?t)" by (rule suffix_dropWhile)
  then have "last ?d = last (rev ?t)" using d
    by (metis last_appendR suffix_def)
  then have 3: "last ?d = hd ?t" using t by (simp add: last_rev)
  have "hd (strip s) = last ?d" using d by (simp add: strip_def hd_rev)
  moreover have "last (strip s) = hd ?d" using d by (simp add: strip_def last_rev)
  ultimately show ?thesis using 1 2 3 by simp
qed


section \<open>Properties of the substitutions\<close>


lemma match_blank_lines_unfold:
  "match_blank_lines p s = (if 3 \<le> lead s then Some ([], lead s) else None)"
  by (simp add: match_blank_lines_def lead_def Let_def)

lemma lead_drop: "lead (drop (lead s) s) = 0"
  unfolding lead_def
  by (metis dropWhile_eq_drop dropWhile_idem length_0_conv takeWhile_dropWhile_id
      append_self_conv2)

text \<open>
  After the substitution of \<^verbatim>\<open>\n{3,}\<close> the run of line feeds at the start is no longer
  than before and has two at most, and nowhere are there three in a row.
\<close>

lemma blank_lines_collapsed:
  "lead (re_sub match_blank_lines (\<lambda>g. [10, 10]) p s) \<le> min 2 (lead s) \<and>
   \<not> sublist [10, 10, 10] (re_sub match_blank_lines (\<lambda>g. [10, 10]) p s)"
proof (induction s arbitrary: p rule: length_induct)
  case (1 s)
  show ?case
  proof (cases s)
    case Nil
    then show ?thesis by (simp add: match_blank_lines_unfold lead_def)
  next
    case (Cons c cs)
    show ?thesis
    proof (cases "3 \<le> lead s")
      case True
      let ?r = "drop (lead s) s"
      have len: "length ?r < length s" using True Cons by simp
      let ?out = "re_sub match_blank_lines (\<lambda>g. [10, 10]) (Some (last (take (lead s) s))) ?r"
      have ih: "lead ?out \<le> min 2 (lead ?r) \<and> \<not> sublist [10, 10, 10] ?out"
        using 1 len by blast
      then have l0: "lead ?out = 0" by (simp add: lead_drop)
      have eq: "re_sub match_blank_lines (\<lambda>g. [10, 10]) p s = [10, 10] @ ?out"
        using True Cons by (simp add: match_blank_lines_unfold)
      have "\<not> sublist [10, 10, 10] ([10, 10] @ ?out)"
        using ih l0 by (cases ?out) (auto simp add: sublist_Cons_right lead_def)
      moreover have "lead ([10, 10] @ ?out) \<le> min 2 (lead s)"
        using True l0 by (simp add: lead_def)
      ultimately show ?thesis using eq by simp
    next
      case False
      let ?out = "re_sub match_blank_lines (\<lambda>g. [10, 10]) (Some c) cs"
      have ih: "lead ?out \<le> min 2 (lead cs) \<and> \<not> sublist [10, 10, 10] ?out"
        using 1 Cons by simp
      have eq: "re_sub match_blank_lines (\<lambda>g. [10, 10]) p s = c # ?out"
        using False Cons by (simp add: match_blank_lines_unfold)
      show ?thesis
      proof (cases "c = 10")
        case True
        then have ls: "lead s = Suc (lead cs)" using Cons by (simp add: lead_def)
        then have "lead cs \<le> 1" using False by simp
        then have lo: "lead ?out \<le> 1" using ih by simp
        have "\<not> prefix [10, 10, 10] (c # ?out)"
          using lo by (cases ?out; cases "tl ?out") (auto simp add: lead_def)
        moreover have "lead (c # ?out) \<le> min 2 (lead s)"
          using True ls ih False by (simp add: lead_def)
        ultimately show ?thesis using eq ih by (simp add: sublist_Cons_right)
      next
        case False
        then show ?thesis using eq ih by (simp add: sublist_Cons_right lead_def)
      qed
    qed
  qed
qed


lemmas format_eval = format_for_telegram_def lit_def match_bold_def match_why_you_def
  match_literal_def match_numbered_def match_blank_lines_def is_decimal_def decimal_ranges_def
  is_space_def strip_def Let_def

section \<open>Properties of the handler's trace\<close>









section \<open>Backend client: the claims\<close>

text \<open>
  C1. When the request succeeds with a 2xx status and the body is a JSON object: a
  non-empty string under \<open>response\<close> is returned as it is; when \<open>response\<close> is missing
  or the empty string, the fallback \<open>No response from BCN Art Compass.\<close> is returned.
\<close>

theorem call_bcn_api_success:
  "200 \<le> status \<and> status \<le> 299 \<longrightarrow>
     (map_of kvs (lit ''response'') = Some (JStr s) \<and> s \<noteq> [] \<longrightarrow>
        snd (call_bcn_api base_url (PostResponse status (Some (JObj kvs))) user_id msg) = Inr (JStr s)) \<and>
     (map_of kvs (lit ''response'') = None \<or> map_of kvs (lit ''response'') = Some (JStr []) \<longrightarrow>
        snd (call_bcn_api base_url (PostResponse status (Some (JObj kvs))) user_id msg)
          = Inr (JStr (lit ''No response from BCN Art Compass.'')))"
  by (auto simp add: call_bcn_api_def try_body_def no_response_def)

theorem call_bcn_api_success_witness:
  "snd (call_bcn_api (lit ''http://localhost:8000'')
          (PostResponse 200 (Some (JObj [(lit ''response'', JStr (lit ''Visit MACBA'')),
                                          (lit ''correlation_id'', JStr (lit ''c1''))])))
          (lit ''tg_alice'') (lit ''hi'')) = Inr (JStr (lit ''Visit MACBA'')) \<and>
   snd (call_bcn_api (lit ''http://localhost:8000'')
          (PostResponse 201 (Some (JObj [(lit ''correlation_id'', JStr (lit ''c1''))])))
          (lit ''tg_alice'') (lit ''hi'')) = Inr (JStr (lit ''No response from BCN Art Compass.'')) \<and>
   snd (call_bcn_api (lit ''http://localhost:8000'')
          (PostResponse 299 (Some (JObj [(lit ''response'', JStr [])])))
          (lit ''tg_alice'') (lit ''hi'')) = Inr (JStr (lit ''No response from BCN Art Compass.''))"
  using call_bcn_api_success [of 200 "[(lit ''response'', JStr (lit ''Visit MACBA'')),
                                          (lit ''correlation_id'', JStr (lit ''c1''))]" "lit ''Visit MACBA''"
          "lit ''http://localhost:8000''" "lit ''tg_alice''" "lit ''hi''"]
        call_bcn_api_success [of 201 "[(lit ''correlation_id'', JStr (lit ''c1''))]" "[]"
          "lit ''http://localhost:8000''" "lit ''tg_alice''" "lit ''hi''"]
        call_bcn_api_success [of 299 "[(lit ''response'', JStr [])]" "[]"
          "lit ''http://localhost:8000''" "lit ''tg_alice''" "lit ''hi''"]
  by (simp add: lit_def)

text \<open>
  C2. When the request fails with a network error or a timeout, when the status is not
  2xx, or when the body is not JSON, \<open>call_bcn_api\<close> raises nothing and returns the fixed
  apology, whatever the user identifier and the message.
\<close>

theorem call_bcn_api_fail_soft:
  "(\<exists>x. net = PostRaises x \<and> (x = NetworkError \<or> x = TimeoutException)) \<or>
   (\<exists>status body. net = PostResponse status body \<and> \<not> (200 \<le> status \<and> status \<le> 299)) \<or>
   (\<exists>status. net = PostResponse status None)
   \<Longrightarrow> snd (call_bcn_api base_url net user_id msg) =
         Inr (JStr (lit ''I couldn't reach the BCN Art Compass backend right now. Please try again in a moment.''))"
  by (auto simp add: call_bcn_api_def try_body_def apology_def lit_def)

theorem call_bcn_api_fail_soft_witness:
  "snd (call_bcn_api (lit ''http://localhost:8000/'') (PostRaises NetworkError) (lit ''tg_alice'') (lit ''hi'')) =
     Inr (JStr (lit ''I couldn't reach the BCN Art Compass backend right now. Please try again in a moment.'')) \<and>
   snd (call_bcn_api (lit ''http://localhost:8000/'') (PostRaises TimeoutException) (lit ''tg_alice'') (lit ''hi'')) =
     Inr (JStr (lit ''I couldn't reach the BCN Art Compass backend right now. Please try again in a moment.'')) \<and>
   snd (call_bcn_api (lit ''http://localhost:8000/'')
          (PostResponse 503 (Some (JObj [(lit ''response'', JStr (lit ''down''))]))) (lit ''tg_alice'') (lit ''hi'')) =
     Inr (JStr (lit ''I couldn't reach the BCN Art Compass backend right now. Please try again in a moment.'')) \<and>
   snd (call_bcn_api (lit ''http://localhost:8000/'') (PostResponse 200 None) (lit ''tg_alice'') (lit ''hi'')) =
     Inr (JStr (lit ''I couldn't reach the BCN Art Compass backend right now. Please try again in a moment.''))"
  using
    call_bcn_api_fail_soft [of "PostRaises NetworkError"
      "lit ''http://localhost:8000/''" "lit ''tg_alice''" "lit ''hi''"]
    call_bcn_api_fail_soft [of "PostRaises TimeoutException"
      "lit ''http://localhost:8000/''" "lit ''tg_alice''" "lit ''hi''"]
    call_bcn_api_fail_soft [of "PostResponse 503 (Some (JObj [(lit ''response'', JStr (lit ''down''))]))"
      "lit ''http://localhost:8000/''" "lit ''tg_alice''" "lit ''hi''"]
    call_bcn_api_fail_soft [of "PostResponse 200 None"
      "lit ''http://localhost:8000/''" "lit ''tg_alice''" "lit ''hi''"]
  by simp

section \<open>Message handler: the claims\<close>



text \<open>
  C5. An update without a message, or whose message has no text or the empty text, is
  ignored: \<open>handle_message\<close> performs no action (no request to the backend, no reply) and
  raises nothing.
\<close>

theorem handle_message_ignores_missing_text:
  "message u = None \<or> (\<exists>m. message u = Some m \<and> (msg_text m = None \<or> msg_text m = Some []))
   \<Longrightarrow> handle_message base_url u e = ([], None)"
  by (auto simp add: handle_message_def)

theorem handle_message_ignores_missing_text_witness:
  "handle_message (lit ''http://localhost:8000'')
     \<lparr>message = None, effective_user = None, effective_chat = Some \<lparr>id_c = 7\<rparr>\<rparr>
     \<lparr>send_chat_action_result = None, post_result = PostRaises NetworkError, reply_text_result = None\<rparr>
     = ([], None) \<and>
   handle_message (lit ''http://localhost:8000'')
     \<lparr>message = Some \<lparr>msg_text = None\<rparr>, effective_user = None, effective_chat = Some \<lparr>id_c = 7\<rparr>\<rparr>
     \<lparr>send_chat_action_result = None, post_result = PostRaises NetworkError, reply_text_result = None\<rparr>
     = ([], None) \<and>
   handle_message (lit ''http://localhost:8000'')
     \<lparr>message = Some \<lparr>msg_text = Some []\<rparr>, effective_user = None, effective_chat = Some \<lparr>id_c = 7\<rparr>\<rparr>
     \<lparr>send_chat_action_result = None, post_result = PostRaises NetworkError, reply_text_result = None\<rparr>
     = ([], None)"
  using
    handle_message_ignores_missing_text [of
      "\<lparr>message = None, effective_user = None, effective_chat = Some \<lparr>id_c = 7\<rparr>\<rparr>"
      "lit ''http://localhost:8000''"
      "\<lparr>send_chat_action_result = None, post_result = PostRaises NetworkError, reply_text_result = None\<rparr>"]
    handle_message_ignores_missing_text [of
      "\<lparr>message = Some \<lparr>msg_text = None\<rparr>, effective_user = None, effective_chat = Some \<lparr>id_c = 7\<rparr>\<rparr>"
      "lit ''http://localhost:8000''"
      "\<lparr>send_chat_action_result = None, post_result = PostRaises NetworkError, reply_text_result = None\<rparr>"]
    handle_message_ignores_missing_text [of
      "\<lparr>message = Some \<lparr>msg_text = Some []\<rparr>, effective_user = None, effective_chat = Some \<lparr>id_c = 7\<rparr>\<rparr>"
      "lit ''http://localhost:8000''"
      "\<lparr>send_chat_action_result = None, post_result = PostRaises NetworkError, reply_text_result = None\<rparr>"]
  by simp

text \<open>
  C6. The typing indicator is awaited without a guard: on a text message whose
  \<open>send_chat_action\<close> raises, the handler stops there with that exception, although the
  backend would have answered; no request is made and no reply is sent.
\<close>

theorem typing_failure_aborts_handler:
  "handle_message (lit ''http://localhost:8000'')
      \<lparr>message = Some \<lparr>msg_text = Some (lit ''hello'')\<rparr>,
        effective_user = Some \<lparr>id_u = 42, username = Some (lit ''alice'')\<rparr>,
        effective_chat = Some \<lparr>id_c = 7\<rparr>\<rparr>
      \<lparr>send_chat_action_result = Some TelegramError,
        post_result = PostResponse 200 (Some (JObj [(lit ''response'', JStr (lit ''Visit MACBA''))])),
        reply_text_result = None\<rparr>
   = ([SendChatAction 7 (lit ''typing'')], Some TelegramError)"
  by (simp add: handle_message_def Let_def lit_def)




section \<open>User identifier: the claim\<close>

text \<open>
  C4. The user identifier follows the chain user name, numeric user id, chat id,
  sentinel: a user with a (non-empty) user name \<open>n\<close> gives \<open>tg_n\<close>; a user without user
  name and with numeric id \<open>i\<close> gives \<open>tg_id_i\<close>; no user (or one with neither) and a chat
  with id \<open>i\<close> gives \<open>tg_chat_i\<close>; no user and no chat gives \<open>tg_unknown\<close>. An id counts
  when it is not 0. The witness has the four examples \<open>tg_alice\<close>, \<open>tg_id_42\<close>,
  \<open>tg_chat_7\<close> and \<open>tg_unknown\<close>.
\<close>

theorem telegram_user_id_chain:
  "(effective_user u = Some usr \<and> username usr = Some n \<and> n \<noteq> []
      \<longrightarrow> telegram_user_id u = lit ''tg_'' @ n) \<and>
   (effective_user u = Some usr \<and> (username usr = None \<or> username usr = Some []) \<and> id_u usr \<noteq> 0
      \<longrightarrow> telegram_user_id u = lit ''tg_id_'' @ str_int (id_u usr)) \<and>
   ((effective_user u = None \<or>
      (effective_user u = Some usr \<and> (username usr = None \<or> username usr = Some []) \<and> id_u usr = 0)) \<and>
    effective_chat u = Some ch \<and> id_c ch \<noteq> 0
      \<longrightarrow> telegram_user_id u = lit ''tg_chat_'' @ str_int (id_c ch)) \<and>
   (effective_user u = None \<and> effective_chat u = None
      \<longrightarrow> telegram_user_id u = lit ''tg_unknown'')"
  by (auto simp add: telegram_user_id_def)

theorem telegram_user_id_chain_witness:
  "telegram_user_id \<lparr>message = None,
      effective_user = Some \<lparr>id_u = 42, username = Some (lit ''alice'')\<rparr>,
      effective_chat = Some \<lparr>id_c = 7\<rparr>\<rparr> = lit ''tg_alice'' \<and>
   telegram_user_id \<lparr>message = None,
      effective_user = Some \<lparr>id_u = 42, username = None\<rparr>,
      effective_chat = Some \<lparr>id_c = 7\<rparr>\<rparr> = lit ''tg_id_42'' \<and>
   telegram_user_id \<lparr>message = None, effective_user = None,
      effective_chat = Some \<lparr>id_c = 7\<rparr>\<rparr> = lit ''tg_chat_7'' \<and>
   telegram_user_id \<lparr>message = None, effective_user = None, effective_chat = None\<rparr>
     = lit ''tg_unknown''"
  using
    telegram_user_id_chain [of
      "\<lparr>message = None, effective_user = Some \<lparr>id_u = 42, username = Some (lit ''alice'')\<rparr>,
        effective_chat = Some \<lparr>id_c = 7\<rparr>\<rparr>"
      "\<lparr>id_u = 42, username = Some (lit ''alice'')\<rparr>" "lit ''alice''" "\<lparr>id_c = 7\<rparr>"]
    telegram_user_id_chain [of
      "\<lparr>message = None, effective_user = Some \<lparr>id_u = 42, username = None\<rparr>,
        effective_chat = Some \<lparr>id_c = 7\<rparr>\<rparr>"
      "\<lparr>id_u = 42, username = None\<rparr>" "[]" "\<lparr>id_c = 7\<rparr>"]
    telegram_user_id_chain [of
      "\<lparr>message = None, effective_user = None, effective_chat = Some \<lparr>id_c = 7\<rparr>\<rparr>"
      "\<lparr>id_u = 0, username = None\<rparr>" "[]" "\<lparr>id_c = 7\<rparr>"]
    telegram_user_id_chain [of
      "\<lparr>message = None, effective_user = None, effective_chat = None\<rparr>"
      "\<lparr>id_u = 0, username = None\<rparr>" "[]" "\<lparr>id_c = 0\<rparr>"]
  by (simp add: lit_def str_int_def digits10.simps)

section \<open>Response formatter: the claims\<close>

text \<open>
  C7. On the text \<open>**Title**\<close>, \<open>1. foo\<close>, \<open>When: tomorrow\<close> (three lines) the formatter
  puts the bold marker right before \<open>Title\<close> and removes the asterisks, turns \<open>1.\<close> into
  the digit and the list marker before \<open>foo\<close> (after an added empty line), and puts the
  calendar marker before \<open>When:\<close>.
\<close>

theorem format_for_telegram_example:
  "format_for_telegram (lit ''**Title**\<newline>1. foo\<newline>When: tomorrow'')
     = [240, 376, 381, 168, 32] @ lit ''Title'' @ [10, 10] @
       lit ''1'' @ [239, 184, 226, 402, 163, 32] @ lit ''foo'' @ [10] @
       [240, 376, 8220, 8230, 32] @ lit ''When: tomorrow'' \<and>
   42 \<notin> set (format_for_telegram (lit ''**Title**\<newline>1. foo\<newline>When: tomorrow''))"
  by (simp add: format_eval)

text \<open>
  C8. The output of the formatter never has three line feeds in a row, and it neither
  starts nor ends with a white-space character; the text \<open>a\<close>, four line feeds, \<open>b\<close>
  becomes \<open>a\<close>, two line feeds, \<open>b\<close>.
\<close>

theorem format_for_telegram_clean:
  "\<not> sublist [10, 10, 10] (format_for_telegram s) \<and>
   (format_for_telegram s = [] \<or>
      (\<not> is_space (hd (format_for_telegram s)) \<and> \<not> is_space (last (format_for_telegram s)))) \<and>
   format_for_telegram (lit ''a\<newline>\<newline>\<newline>\<newline>b'') = lit ''a\<newline>\<newline>b''"
proof -
  have "\<not> sublist [10, 10, 10] (format_for_telegram s)"
    unfolding format_for_telegram_def Let_def
    using blank_lines_collapsed strip_sublist sublist_order.order_trans by blast
  moreover have "format_for_telegram s = [] \<or>
      (\<not> is_space (hd (format_for_telegram s)) \<and> \<not> is_space (last (format_for_telegram s)))"
    unfolding format_for_telegram_def Let_def by (rule strip_ends)
  moreover have "format_for_telegram (lit ''a\<newline>\<newline>\<newline>\<newline>b'') = lit ''a\<newline>\<newline>b''"
    by (simp add: format_eval)
  ultimately show ?thesis by blast
qed

theorem format_for_telegram_clean_witness:
  "format_for_telegram (lit '' x\<newline>\<newline>\<newline>\<newline>\<newline>1. y \<newline>'') \<noteq> [] \<and>
   \<not> sublist [10, 10, 10] (format_for_telegram (lit '' x\<newline>\<newline>\<newline>\<newline>\<newline>1. y \<newline>'')) \<and>
   \<not> is_space (hd (format_for_telegram (lit '' x\<newline>\<newline>\<newline>\<newline>\<newline>1. y \<newline>''))) \<and>
   \<not> is_space (last (format_for_telegram (lit '' x\<newline>\<newline>\<newline>\<newline>\<newline>1. y \<newline>'')))"
proof -
  have "format_for_telegram (lit '' x\<newline>\<newline>\<newline>\<newline>\<newline>1. y \<newline>'') \<noteq> []"
    by (simp add: format_eval)
  then show ?thesis
    using format_for_telegram_clean [of "lit '' x\<newline>\<newline>\<newline>\<newline>\<newline>1. y \<newline>''"] by blast
qed

section \<open>Configuration: the claim\<close>

text \<open>
  C9. \<open>_load_config\<close> raises exactly when \<open>TELEGRAM_BOT_TOKEN\<close> is absent or empty. With
  a token it returns it, with \<open>http://localhost:8000\<close> as base URL when
  \<open>BCN_API_BASE_URL\<close> is absent and with the level INFO (20) when \<open>BCN_BOT_LOG_LEVEL\<close> is
  absent.
\<close>

theorem load_config_fail_fast:
  "((\<exists>x. load_config uc environ = Inl x) \<longleftrightarrow>
      (environ (lit ''TELEGRAM_BOT_TOKEN'') = None \<or> environ (lit ''TELEGRAM_BOT_TOKEN'') = Some [])) \<and>
   (environ (lit ''TELEGRAM_BOT_TOKEN'') = Some token \<and> token \<noteq> [] \<longrightarrow>
      (\<exists>api_base log_level. load_config uc environ = Inr (token, api_base, log_level) \<and>
         (environ (lit ''BCN_API_BASE_URL'') = None \<longrightarrow> api_base = lit ''http://localhost:8000'') \<and>
         (environ (lit ''BCN_BOT_LOG_LEVEL'') = None \<longrightarrow> log_level = AInt 20)))"
  by (auto simp add: load_config_def getenv_def Let_def upper_def logging_attrs_def lit_def
      split: option.splits)

theorem load_config_fail_fast_witness:
  "(\<exists>x. load_config (\<lambda>c. [c]) Map.empty = Inl x) \<and>
   (\<exists>x. load_config (\<lambda>c. [c]) [lit ''TELEGRAM_BOT_TOKEN'' \<mapsto> []] = Inl x) \<and>
   load_config (\<lambda>c. [c]) [lit ''TELEGRAM_BOT_TOKEN'' \<mapsto> lit ''123:abc'']
     = Inr (lit ''123:abc'', lit ''http://localhost:8000'', AInt 20)"
  using load_config_fail_fast [of "\<lambda>c. [c]" Map.empty "[]"]
    load_config_fail_fast [of "\<lambda>c. [c]" "[lit ''TELEGRAM_BOT_TOKEN'' \<mapsto> []]" "[]"]
    load_config_fail_fast [of "\<lambda>c. [c]" "[lit ''TELEGRAM_BOT_TOKEN'' \<mapsto> lit ''123:abc'']" "lit ''123:abc''"]
  by (simp add: lit_def)

end
